theory Spec2Isabelle
  imports Complex_Main
begin

section \<open>The bottom sheet of src/src/BottomSheet.tsx\<close>

text \<open>
  The component is a React function component: its state is one React state cell
  (\<open>modalVisible\<close>), two animated values (\<open>animatedHeight\<close> and \<open>pan\<close>) and the
  animations in flight on them. Every handler of the source is a function from the
  state before to the state after. JavaScript numbers are modelled as \<open>real\<close>, which
  leaves rounding, infinities and NaN out.
\<close>

subsection \<open>Props and their defaults\<close>

datatype animation = AnimNone | AnimSlide | AnimFade

text \<open>
  \<open>interface Props\<close>: every field is optional, \<open>None\<close> is an omitted field.
  \<open>customStyles\<close> and \<open>children\<close> only reach the rendered tree and are left out.
  \<open>p_onClose\<close> says whether the owner passed a callback.
\<close>

record props =
  p_animationType :: "animation option"
  p_height :: "real option"
  p_minClosingHeight :: "real option"
  p_duration :: "real option"
  p_closeOnDragDown :: "bool option"
  p_closeOnPressMask :: "bool option"
  p_closeOnPressBack :: "bool option"
  p_onClose :: bool

text \<open>The destructured parameters of the component function, defaults applied.\<close>

record config =
  animationType :: animation
  height :: real
  minClosingHeight :: real
  duration :: real
  closeOnDragDown :: bool
  closeOnPressMask :: bool
  closeOnPressBack :: bool
  onClose :: bool

text \<open>A destructuring default \<open>x = d\<close>: \<open>d\<close> where the field is omitted.\<close>

definition orDefault :: "'a option \<Rightarrow> 'a \<Rightarrow> 'a" where
  "orDefault v d = (case v of None \<Rightarrow> d | Some x \<Rightarrow> x)"

definition BottomSheet_props :: "props \<Rightarrow> config" where
  "BottomSheet_props p =
     \<lparr> animationType = orDefault (p_animationType p) AnimNone,
       height = orDefault (p_height p) 260,
       minClosingHeight = orDefault (p_minClosingHeight p) 0,
       duration = orDefault (p_duration p) 300,
       closeOnDragDown = orDefault (p_closeOnDragDown p) False,
       closeOnPressMask = orDefault (p_closeOnPressMask p) True,
       closeOnPressBack = orDefault (p_closeOnPressBack p) True,
       onClose = p_onClose p \<rparr>"

definition no_props :: props where
  "no_props =
     \<lparr> p_animationType = None, p_height = None, p_minClosingHeight = None,
       p_duration = None, p_closeOnDragDown = None, p_closeOnPressMask = None,
       p_closeOnPressBack = None, p_onClose = False \<rparr>"

subsection \<open>State\<close>

text \<open>
  The two completion callbacks that \<open>setModalVisibility\<close> passes to \<open>start\<close>:
  the one of the opening branch and the one of the closing branch.
\<close>

datatype completion = OpenDone | CloseDone

text \<open>An \<open>Animated.timing\<close> run on \<open>animatedHeight\<close>: its configuration and callback.\<close>

record timing =
  toValue :: real
  run_duration :: real
  callback :: completion

text \<open>What an invocation of the owner's \<open>onClose\<close> can observe of the sheet.\<close>

record observation =
  seen_visible :: bool
  seen_pan_x :: real
  seen_pan_y :: real
  seen_height :: real

text \<open>
  \<open>modalVisible\<close> is the React state cell (the spec's SheetState: open when true);
  \<open>animatedHeight\<close> and \<open>pan_x\<close>, \<open>pan_y\<close> are the current values of
  \<open>initialHeight\<close> and \<open>initialPan\<close>; \<open>heightRun\<close> is the timing run in flight on
  the height, \<open>panSpring\<close> the target of the spring in flight on the pan offset;
  \<open>closeCalls\<close> lists the invocations of \<open>onClose\<close>, oldest first. React's state
  setter is modelled as an assignment that takes effect at once.
\<close>

record sheet =
  modalVisible :: bool
  animatedHeight :: real
  pan_x :: real
  pan_y :: real
  heightRun :: "timing option"
  panSpring :: "(real \<times> real) option"
  closeCalls :: "observation list"

text \<open>
  \<open>new Animated.Value(0)\<close>, \<open>new Animated.ValueXY()\<close> and \<open>useState(false)\<close>:
  the first instance of the component after the module is loaded. The two animated
  values are created once, at module level, and \<open>useState(initialHeight)\<close> and
  \<open>useState(initialPan)\<close> hand the same two objects to every instance; a later
  instance starts from \<open>remount\<close> below.
\<close>

definition initial :: sheet where
  "initial =
     \<lparr> modalVisible = False, animatedHeight = 0, pan_x = 0, pan_y = 0,
       heightRun = None, panSpring = None, closeCalls = [] \<rparr>"

text \<open>
  A further instance, mounted on the state \<open>s\<close> an earlier instance left with no
  run in flight: \<open>useState(false)\<close> and the owner's calls are its own, the height
  and the pan offset are the shared objects with the values they hold.
\<close>

definition remount :: "sheet \<Rightarrow> sheet" where
  "remount s =
     initial\<lparr>animatedHeight := animatedHeight s, pan_x := pan_x s, pan_y := pan_y s\<rparr>"

subsection \<open>The animator\<close>

text \<open>
  Modelled from the spec: the animation engine (\<open>Animated\<close> of react-native) is not
  among the sources. Its contract in the spec: a run is started on a value with a
  target and a completion callback; starting a run on a value supersedes the run in
  flight on it, whose completion then never fires; that is the only cancellation.
\<close>

definition timing_start :: "timing \<Rightarrow> sheet \<Rightarrow> sheet" where
  "timing_start r s = s\<lparr>heightRun := Some r\<rparr>"

text \<open>
  Modelled from the spec: \<open>Animated.spring(pan, {toValue}).start()\<close>, a run on the
  pan offset with no completion callback.
\<close>

definition spring_start :: "real \<times> real \<Rightarrow> sheet \<Rightarrow> sheet" where
  "spring_start target s = s\<lparr>panSpring := Some target\<rparr>"

text \<open>
  Modelled from the spec: \<open>animatedHeight.setValue(v)\<close> assigns the value
  directly; it is not a run, and superseding is the only cancellation of a run.
\<close>

definition animatedHeight_setValue :: "real \<Rightarrow> sheet \<Rightarrow> sheet" where
  "animatedHeight_setValue v s = s\<lparr>animatedHeight := v\<rparr>"

text \<open>
  Modelled from the spec: \<open>pan.setValue({x, y})\<close> assigns both coordinates
  directly.
\<close>

definition pan_setValue :: "real \<times> real \<Rightarrow> sheet \<Rightarrow> sheet" where
  "pan_setValue v s = s\<lparr>pan_x := fst v, pan_y := snd v\<rparr>"

text \<open>
  Modelled from the spec: \<open>Animated.event([null, {dy: pan.y}])\<close> called with a
  gesture state assigns its \<open>dy\<close> to \<open>pan.y\<close> and leaves \<open>pan.x\<close> alone.
\<close>

definition pan_y_setValue :: "real \<Rightarrow> sheet \<Rightarrow> sheet" where
  "pan_y_setValue v s = s\<lparr>pan_y := v\<rparr>"

subsection \<open>useBottomSheetVisibility\<close>

definition observe :: "sheet \<Rightarrow> observation" where
  "observe s =
     \<lparr> seen_visible = modalVisible s, seen_pan_x = pan_x s, seen_pan_y = pan_y s,
       seen_height = animatedHeight s \<rparr>"

text \<open>\<open>if (onClose) onClose()\<close>: the call is recorded with what it can observe.\<close>

definition call_onClose :: "config \<Rightarrow> sheet \<Rightarrow> sheet" where
  "call_onClose cfg s =
     (if onClose cfg then s\<lparr>closeCalls := closeCalls s @ [observe s]\<rparr> else s)"

text \<open>
  The bodies of the two callbacks, in the order of their statements:
  \<open>animatedHeight.setValue(height)\<close> for the opening run;
  \<open>setModalVisible(false); pan.setValue({x: 0, y: 0}); if (onClose) onClose()\<close>
  for the closing run. \<open>setModalVisible\<close> is a React state setter. Here the
  callback runs outside a React batch (a completion driven by the animator's
  timer): React applies the update during the call of the setter, before the
  next statement.
\<close>

definition complete :: "config \<Rightarrow> completion \<Rightarrow> sheet \<Rightarrow> sheet" where
  "complete cfg cb s =
     (case cb of
        OpenDone \<Rightarrow> animatedHeight_setValue (height cfg) s
      | CloseDone \<Rightarrow>
          call_onClose cfg (pan_setValue (0, 0) (s\<lparr>modalVisible := False\<rparr>)))"

text \<open>
  The same callbacks run inside a React batch (a completion that happens within an
  event handler, as for a run of duration 0 started by a press, and every
  completion where React batches all updates): React queues the update of
  \<open>setModalVisible(false)\<close> and applies it when the batch ends, after
  \<open>pan.setValue\<close> and \<open>onClose\<close> have run.
\<close>

definition complete_batched :: "config \<Rightarrow> completion \<Rightarrow> sheet \<Rightarrow> sheet" where
  "complete_batched cfg cb s =
     (case cb of
        OpenDone \<Rightarrow> animatedHeight_setValue (height cfg) s
      | CloseDone \<Rightarrow>
          (call_onClose cfg (pan_setValue (0, 0) s))\<lparr>modalVisible := False\<rparr>)"

definition setModalVisibility :: "config \<Rightarrow> bool \<Rightarrow> sheet \<Rightarrow> sheet" where
  "setModalVisibility cfg visible s =
     (if visible then
        timing_start
          \<lparr>toValue = height cfg, run_duration = duration cfg, callback = OpenDone\<rparr>
          (s\<lparr>modalVisible := True\<rparr>)
      else
        timing_start
          \<lparr>toValue = minClosingHeight cfg, run_duration = duration cfg,
           callback = CloseDone\<rparr>
          s)"

subsection \<open>usePanResponder\<close>

definition onStartShouldSetPanResponder :: "config \<Rightarrow> bool" where
  "onStartShouldSetPanResponder cfg = closeOnDragDown cfg"

text \<open>\<open>dy\<close> is \<open>gestureState.dy\<close>; \<open>Animated.event\<close> maps it to \<open>pan.y\<close>.\<close>

definition onPanResponderMove :: "real \<Rightarrow> sheet \<Rightarrow> sheet" where
  "onPanResponderMove dy s = (if dy > 0 then pan_y_setValue dy s else s)"

definition onPanResponderRelease :: "config \<Rightarrow> real \<Rightarrow> sheet \<Rightarrow> sheet" where
  "onPanResponderRelease cfg dy s =
     (if height cfg / 4 - dy < 0 then setModalVisibility cfg False s
      else spring_start (0, 0) s)"

subsection \<open>The component: handle and input handlers\<close>

definition close :: "config \<Rightarrow> sheet \<Rightarrow> sheet" where
  "close cfg s = setModalVisibility cfg False s"

text \<open>The handle's \<open>open\<close>; the name \<open>open\<close> is reserved here.\<close>

definition open_sheet :: "config \<Rightarrow> sheet \<Rightarrow> sheet" where
  "open_sheet cfg s = setModalVisibility cfg True s"

text \<open>\<open>onRequestClose\<close> of the modal and \<open>onPress\<close> of the mask.\<close>

definition onRequestClose :: "config \<Rightarrow> sheet \<Rightarrow> sheet" where
  "onRequestClose cfg s = (if closeOnPressBack cfg then close cfg s else s)"

definition onPress :: "config \<Rightarrow> sheet \<Rightarrow> sheet" where
  "onPress cfg s = (if closeOnPressMask cfg then close cfg s else s)"

subsection \<open>What the animator does to the sheet\<close>

definition between :: "real \<Rightarrow> real \<Rightarrow> real \<Rightarrow> bool" where
  "between a v b = ((a \<le> v \<and> v \<le> b) \<or> (b \<le> v \<and> v \<le> a))"

text \<open>
  Modelled from the spec: a frame of the timing run in flight moves the height to a
  value between the current one and the run's target (the height progresses
  monotonically toward the target); with no run in flight nothing moves.
\<close>

definition timing_frame :: "real \<Rightarrow> sheet \<Rightarrow> sheet" where
  "timing_frame v s =
     (case heightRun s of
        None \<Rightarrow> s
      | Some r \<Rightarrow>
          if between (animatedHeight s) v (toValue r) then s\<lparr>animatedHeight := v\<rparr>
          else s)"

text \<open>
  Modelled from the spec: the run in flight completes when the value has reached its
  target, and its completion callback runs then, once.
\<close>

definition timing_end :: "config \<Rightarrow> sheet \<Rightarrow> sheet" where
  "timing_end cfg s =
     (case heightRun s of
        None \<Rightarrow> s
      | Some r \<Rightarrow>
          complete cfg (callback r) (s\<lparr>animatedHeight := toValue r, heightRun := None\<rparr>))"

text \<open>
  Modelled from the spec: the same completion, with the callback run inside a React
  batch.
\<close>

definition timing_end_batched :: "config \<Rightarrow> sheet \<Rightarrow> sheet" where
  "timing_end_batched cfg s =
     (case heightRun s of
        None \<Rightarrow> s
      | Some r \<Rightarrow>
          complete_batched cfg (callback r)
            (s\<lparr>animatedHeight := toValue r, heightRun := None\<rparr>))"

text \<open>
  Modelled from the spec: the spring in flight on the pan offset settles at its
  target.
\<close>

definition spring_end :: "sheet \<Rightarrow> sheet" where
  "spring_end s =
     (case panSpring s of
        None \<Rightarrow> s
      | Some t \<Rightarrow> s\<lparr>pan_x := fst t, pan_y := snd t, panSpring := None\<rparr>)"

subsection \<open>Events\<close>

text \<open>
  Everything that can happen to a mounted component: a call through the handle, an
  input event of the host, a step of the animator. The pan handlers run only for a
  gesture the responder claimed, which \<open>onStartShouldSetPanResponder\<close> decides.
  Events are accepted in every state: the host delivers input only while the modal
  is shown (\<open>deliver\<close> below), so the traces of a component whose props do not
  change are among the traces here. \<open>TimingEnd\<close> is the completion outside a
  React batch; the one inside a batch ends in the same state and differs only in
  what the recorded call of \<open>onClose\<close> observed of the visibility.
\<close>

datatype event =
    CallOpen
  | CallClose
  | MaskPress
  | BackRequest
  | PanMove real
  | PanRelease real
  | TimingFrame real
  | TimingEnd
  | SpringEnd

fun step :: "config \<Rightarrow> event \<Rightarrow> sheet \<Rightarrow> sheet" where
  "step cfg CallOpen s = open_sheet cfg s"
| "step cfg CallClose s = close cfg s"
| "step cfg MaskPress s = onPress cfg s"
| "step cfg BackRequest s = onRequestClose cfg s"
| "step cfg (PanMove dy) s =
     (if onStartShouldSetPanResponder cfg then onPanResponderMove dy s else s)"
| "step cfg (PanRelease dy) s =
     (if onStartShouldSetPanResponder cfg then onPanResponderRelease cfg dy s else s)"
| "step cfg (TimingFrame v) s = timing_frame v s"
| "step cfg TimingEnd s = timing_end cfg s"
| "step cfg SpringEnd s = spring_end s"

fun run :: "config \<Rightarrow> event list \<Rightarrow> sheet \<Rightarrow> sheet" where
  "run cfg [] s = s"
| "run cfg (e # es) s = run cfg es (step cfg e s)"


subsection \<open>Sample configurations, runs and invariants\<close>

text \<open>
  The runs that \<open>setModalVisibility\<close> starts: the object literals passed to
  \<open>Animated.timing\<close> with the callback given to \<open>start\<close>.
\<close>

definition close_run :: "config \<Rightarrow> timing" where
  "close_run cfg =
     \<lparr>toValue = minClosingHeight cfg, run_duration = duration cfg, callback = CloseDone\<rparr>"

definition open_run :: "config \<Rightarrow> timing" where
  "open_run cfg =
     \<lparr>toValue = height cfg, run_duration = duration cfg, callback = OpenDone\<rparr>"

text \<open>An owner that enables dragging and passes \<open>onClose\<close>; all else is defaulted.\<close>

definition drag_props :: props where
  "drag_props = no_props\<lparr>p_closeOnDragDown := Some True, p_onClose := True\<rparr>"

definition drag_config :: config where
  "drag_config = BottomSheet_props drag_props"

text \<open>An owner that sets \<open>minClosingHeight\<close> to 10.\<close>

definition tall_props :: props where
  "tall_props = no_props\<lparr>p_minClosingHeight := Some 10\<rparr>"

text \<open>An owner that switches both press-to-close flags off.\<close>

definition locked_props :: props where
  "locked_props =
     no_props\<lparr>p_closeOnPressMask := Some False, p_closeOnPressBack := Some False\<rparr>"

text \<open>The sheet of \<open>drag_config\<close> after \<open>open()\<close> and the end of its animation.\<close>

definition opened :: sheet where
  "opened = run drag_config [CallOpen, TimingEnd] initial"

text \<open>The modal is shown after every event of the trace.\<close>

fun stays_open :: "config \<Rightarrow> event list \<Rightarrow> sheet \<Rightarrow> bool" where
  "stays_open cfg [] s = True"
| "stays_open cfg (e # es) s =
     (modalVisible (step cfg e s) \<and> stays_open cfg es (step cfg e s))"

text \<open>The horizontal offset is 0, and so is the one a spring in flight aims at.\<close>

definition pan_x_pinned :: "sheet \<Rightarrow> bool" where
  "pan_x_pinned s =
     (pan_x s = 0 \<and> (case panSpring s of None \<Rightarrow> True | Some t \<Rightarrow> fst t = 0))"

text \<open>
  The height lies between \<open>lo\<close> and \<open>hi\<close>, and a run in flight aims at
  \<open>height\<close> or at \<open>minClosingHeight\<close>.
\<close>

definition height_in :: "config \<Rightarrow> real \<Rightarrow> real \<Rightarrow> sheet \<Rightarrow> bool" where
  "height_in cfg lo hi s =
     (lo \<le> animatedHeight s \<and> animatedHeight s \<le> hi
      \<and> (case heightRun s of
            None \<Rightarrow> True
          | Some r \<Rightarrow> toValue r = height cfg \<or> toValue r = minClosingHeight cfg))"

text \<open>An owner that sets \<open>height\<close> to 100.\<close>

definition short_props :: props where
  "short_props = no_props\<lparr>p_height := Some 100\<rparr>"

text \<open>An owner that sets \<open>duration\<close> to 0 and passes \<open>onClose\<close>.\<close>

definition instant_props :: props where
  "instant_props = no_props\<lparr>p_duration := Some 0, p_onClose := True\<rparr>"

definition instant_config :: config where
  "instant_config = BottomSheet_props instant_props"

text \<open>The sheet of \<open>instant_config\<close> after \<open>open()\<close> and the end of its run.\<close>

definition instant_opened :: sheet where
  "instant_opened = run instant_config [CallOpen, TimingEnd] initial"

subsection \<open>Renders, the pan responder and the host\<close>

text \<open>
  \<open>usePanResponder\<close> keeps the responder in a ref, filled by an effect whose
  dependencies are \<open>[pan, height]\<close>: the effect runs after the first render and
  after a render with another \<open>height\<close> (\<open>pan\<close> is always the same object), and
  the handlers it builds close over the \<open>closeOnDragDown\<close>, \<open>height\<close> and
  \<open>setModalVisibility\<close> of that render. A render spreads the handlers of the
  responder that is in the ref at that time on the \<open>Animated.View\<close>, and leaves
  the view out while the ref is empty, as it is during the first render.

  \<open>rendered\<close> is the configuration of the last render, \<open>responder_ref\<close> the
  one the handlers in the ref closed over, \<open>attached\<close> the one the handlers on
  the view closed over (\<open>None\<close>: no view), \<open>view\<close> the state of the sheet.
\<close>

record component =
  rendered :: config
  responder_ref :: config
  attached :: "config option"
  view :: sheet

text \<open>The first render of the first instance, and its effect.\<close>

definition mount :: "config \<Rightarrow> component" where
  "mount cfg = \<lparr>rendered = cfg, responder_ref = cfg, attached = None, view = initial\<rparr>"

text \<open>A later render with configuration \<open>cfg\<close>, and its effect.\<close>

definition render :: "config \<Rightarrow> component \<Rightarrow> component" where
  "render cfg c =
     c\<lparr>rendered := cfg,
       attached := Some (responder_ref c),
       responder_ref := (if height cfg = height (rendered c) then responder_ref c else cfg)\<rparr>"

text \<open>
  \<open>open()\<close> through the handle, which follows the last render; React renders
  again when the state cell changed.
\<close>

definition handle_open :: "component \<Rightarrow> component" where
  "handle_open c =
     (if modalVisible (view c) then c\<lparr>view := open_sheet (rendered c) (view c)\<rparr>
      else render (rendered c) (c\<lparr>view := open_sheet (rendered c) (view c)\<rparr>))"

text \<open>The input events of the host: a drag sample, a release, a mask press, a back request.\<close>

datatype input = Drag real | Release real | Mask | Back

text \<open>
  Modelled from the spec: the host renders the overlay, and with it the mask and the
  view that carries the pan handlers, only while \<open>visible\<close> is true, so it
  delivers input only then. The pan events reach the handlers attached to the
  view; the mask press and the back request reach the closures of the last render.
\<close>

fun deliver :: "input \<Rightarrow> component \<Rightarrow> component" where
  "deliver (Drag dy) c =
     (if modalVisible (view c) then
        (case attached c of
           None \<Rightarrow> c
         | Some k \<Rightarrow> c\<lparr>view := step k (PanMove dy) (view c)\<rparr>)
      else c)"
| "deliver (Release dy) c =
     (if modalVisible (view c) then
        (case attached c of
           None \<Rightarrow> c
         | Some k \<Rightarrow> c\<lparr>view := step k (PanRelease dy) (view c)\<rparr>)
      else c)"
| "deliver Mask c =
     (if modalVisible (view c) then c\<lparr>view := onPress (rendered c) (view c)\<rparr> else c)"
| "deliver Back c =
     (if modalVisible (view c) then c\<lparr>view := onRequestClose (rendered c) (view c)\<rparr>
      else c)"

text \<open>The props of \<open>drag_props\<close> with \<open>closeOnDragDown\<close> switched off.\<close>

definition undrag_props :: props where
  "undrag_props = drag_props\<lparr>p_closeOnDragDown := Some False\<rparr>"

text \<open>
  The first instance mounted with dragging enabled, opened, and then rendered again
  by its owner with \<open>closeOnDragDown\<close> false and all else as before.
\<close>

definition stale :: component where
  "stale = render (BottomSheet_props undrag_props) (handle_open (mount drag_config))"

section \<open>Auxiliary facts\<close>

lemmas handler_defs =
  setModalVisibility_def timing_start_def spring_start_def animatedHeight_setValue_def
  pan_setValue_def pan_y_setValue_def observe_def call_onClose_def complete_def
  onStartShouldSetPanResponder_def onPanResponderMove_def onPanResponderRelease_def
  close_def open_sheet_def onRequestClose_def onPress_def timing_frame_def timing_end_def
  spring_end_def

lemma drag_config_simps:
  "drag_config =
     \<lparr> animationType = AnimNone, height = 260, minClosingHeight = 0, duration = 300,
       closeOnDragDown = True, closeOnPressMask = True, closeOnPressBack = True,
       onClose = True \<rparr>"
  by (simp add: drag_config_def drag_props_def BottomSheet_props_def no_props_def
      orDefault_def)

lemma opened_simps:
  "opened =
     \<lparr> modalVisible = True, animatedHeight = 260, pan_x = 0, pan_y = 0,
       heightRun = None, panSpring = None, closeCalls = [] \<rparr>"
  by (simp add: opened_def drag_config_simps initial_def handler_defs)

lemma run_append: "run cfg (es @ es') s = run cfg es' (run cfg es s)"
  by (induction es arbitrary: s) simp_all

text \<open>Frames of the animator move the height and nothing else.\<close>

lemma heightRun_timing_frame: "heightRun (timing_frame v s) = heightRun s"
  by (simp add: timing_frame_def split: option.splits)

lemma frames_keep_run: "heightRun (run cfg (map TimingFrame vs) s) = heightRun s"
  by (induction vs arbitrary: s) (simp_all add: heightRun_timing_frame)

lemma frames_keep_rest:
  "modalVisible (run cfg (map TimingFrame vs) s) = modalVisible s
   \<and> pan_x (run cfg (map TimingFrame vs) s) = pan_x s
   \<and> pan_y (run cfg (map TimingFrame vs) s) = pan_y s
   \<and> closeCalls (run cfg (map TimingFrame vs) s) = closeCalls s"
  by (induction vs arbitrary: s) (auto simp: timing_frame_def split: option.splits)

text \<open>The end of a closing run, whatever frames came before it.\<close>

lemma timing_end_close_run:
  assumes "heightRun s = Some (close_run cfg)"
  shows "\<not> modalVisible (timing_end cfg s)"
    and "pan_x (timing_end cfg s) = 0"
    and "pan_y (timing_end cfg s) = 0"
    and "animatedHeight (timing_end cfg s) = minClosingHeight cfg"
    and "heightRun (timing_end cfg s) = None"
    and "closeCalls (timing_end cfg s) =
           closeCalls s @
             (if onClose cfg
              then [\<lparr>seen_visible = False, seen_pan_x = 0, seen_pan_y = 0,
                     seen_height = minClosingHeight cfg\<rparr>]
              else [])"
  using assms by (simp_all add: handler_defs close_run_def)

lemma close_run_completes:
  assumes "heightRun s = Some (close_run cfg)"
  shows "\<not> modalVisible (run cfg (map TimingFrame vs @ [TimingEnd]) s)"
    and "animatedHeight (run cfg (map TimingFrame vs @ [TimingEnd]) s) = minClosingHeight cfg"
    and "closeCalls (run cfg (map TimingFrame vs @ [TimingEnd]) s) =
           closeCalls s @
             (if onClose cfg
              then [\<lparr>seen_visible = False, seen_pan_x = 0, seen_pan_y = 0,
                     seen_height = minClosingHeight cfg\<rparr>]
              else [])"
proof -
  let ?f = "run cfg (map TimingFrame vs) s"
  have r: "heightRun ?f = Some (close_run cfg)"
    using assms by (simp add: frames_keep_run)
  have c: "closeCalls ?f = closeCalls s"
    by (simp add: frames_keep_rest)
  show "\<not> modalVisible (run cfg (map TimingFrame vs @ [TimingEnd]) s)"
    using timing_end_close_run(1) [OF r] by (simp add: run_append)
  show "animatedHeight (run cfg (map TimingFrame vs @ [TimingEnd]) s) = minClosingHeight cfg"
    using timing_end_close_run(4) [OF r] by (simp add: run_append)
  show "closeCalls (run cfg (map TimingFrame vs @ [TimingEnd]) s) =
           closeCalls s @
             (if onClose cfg
              then [\<lparr>seen_visible = False, seen_pan_x = 0, seen_pan_y = 0,
                     seen_height = minClosingHeight cfg\<rparr>]
              else [])"
    using timing_end_close_run(6) [OF r] c by (simp add: run_append)
qed

lemma close_starts_close_run:
  "heightRun (setModalVisibility cfg False s) = Some (close_run cfg)"
  "closeCalls (setModalVisibility cfg False s) = closeCalls s"
  by (simp_all add: setModalVisibility_def timing_start_def close_run_def)

text \<open>An event adds at most one call of \<open>onClose\<close>, and only by ending a closing run.\<close>

lemma step_closeCalls:
  "closeCalls (step cfg e s) = closeCalls s
   \<or> (e = TimingEnd
      \<and> (\<exists>r. heightRun s = Some r \<and> callback r = CloseDone)
      \<and> length (closeCalls (step cfg e s)) = length (closeCalls s) + 1
      \<and> \<not> modalVisible (step cfg e s)
      \<and> heightRun (step cfg e s) = None)"
  by (cases e) (auto simp: handler_defs split: option.splits completion.splits)

lemma stays_open_closeCalls:
  "stays_open cfg es s \<Longrightarrow> closeCalls (run cfg es s) = closeCalls s"
proof (induction es arbitrary: s)
  case Nil
  then show ?case by simp
next
  case (Cons e es)
  from Cons.prems have vis: "modalVisible (step cfg e s)"
    and rest: "stays_open cfg es (step cfg e s)" by simp_all
  from step_closeCalls [of cfg e s] vis
  have "closeCalls (step cfg e s) = closeCalls s" by blast
  with Cons.IH [OF rest] show ?case by simp
qed

lemma step_pan_x_pinned: "pan_x_pinned s \<Longrightarrow> pan_x_pinned (step cfg e s)"
  by (cases e)
    (auto simp: pan_x_pinned_def handler_defs split: option.splits completion.splits)

lemma run_pan_x_pinned: "pan_x_pinned s \<Longrightarrow> pan_x_pinned (run cfg es s)"
  by (induction es arbitrary: s) (simp_all add: step_pan_x_pinned)

lemma step_height_in:
  assumes "lo \<le> minClosingHeight cfg" "minClosingHeight cfg \<le> height cfg"
    and "height cfg \<le> hi" and "height_in cfg lo hi s"
  shows "height_in cfg lo hi (step cfg e s)"
  using assms
  by (cases e)
    (auto simp: height_in_def handler_defs between_def
      split: option.splits completion.splits)

lemma run_height_in:
  assumes "lo \<le> minClosingHeight cfg" "minClosingHeight cfg \<le> height cfg"
    and "height cfg \<le> hi"
  shows "height_in cfg lo hi s \<Longrightarrow> height_in cfg lo hi (run cfg es s)"
  by (induction es arbitrary: s) (simp_all add: step_height_in [OF assms])

lemma remount_initial: "remount initial = initial"
  by (simp add: remount_def initial_def)

text \<open>
  A completion inside a batch ends in the state of the completion outside, but for
  what the recorded call observed of the visibility.
\<close>

lemma timing_end_batched_state:
  "modalVisible (timing_end_batched cfg s) = modalVisible (timing_end cfg s)"
  "animatedHeight (timing_end_batched cfg s) = animatedHeight (timing_end cfg s)"
  "pan_x (timing_end_batched cfg s) = pan_x (timing_end cfg s)"
  "pan_y (timing_end_batched cfg s) = pan_y (timing_end cfg s)"
  "heightRun (timing_end_batched cfg s) = heightRun (timing_end cfg s)"
  "panSpring (timing_end_batched cfg s) = panSpring (timing_end cfg s)"
  "length (closeCalls (timing_end_batched cfg s)) = length (closeCalls (timing_end cfg s))"
  "map seen_pan_x (closeCalls (timing_end_batched cfg s))
     = map seen_pan_x (closeCalls (timing_end cfg s))"
  "map seen_pan_y (closeCalls (timing_end_batched cfg s))
     = map seen_pan_y (closeCalls (timing_end cfg s))"
  "map seen_height (closeCalls (timing_end_batched cfg s))
     = map seen_height (closeCalls (timing_end cfg s))"
  by (auto simp: timing_end_batched_def complete_batched_def handler_defs
      split: option.splits completion.splits)

lemma timing_end_batched_close_run:
  assumes "heightRun s = Some (close_run cfg)"
  shows "\<not> modalVisible (timing_end_batched cfg s)"
    and "pan_x (timing_end_batched cfg s) = 0"
    and "pan_y (timing_end_batched cfg s) = 0"
    and "animatedHeight (timing_end_batched cfg s) = minClosingHeight cfg"
    and "heightRun (timing_end_batched cfg s) = None"
    and "closeCalls (timing_end_batched cfg s) =
           closeCalls s @
             (if onClose cfg
              then [\<lparr>seen_visible = modalVisible s, seen_pan_x = 0, seen_pan_y = 0,
                     seen_height = minClosingHeight cfg\<rparr>]
              else [])"
  using assms
  by (simp_all add: timing_end_batched_def complete_batched_def handler_defs close_run_def)

text \<open>
  While the props do not change, input reaches a hidden sheet never and the pan
  handlers only with \<open>closeOnDragDown\<close> set.
\<close>

lemma deliver_hidden: "\<not> modalVisible (view c) \<Longrightarrow> deliver i c = c"
  by (cases i) simp_all

lemma deliver_drag_disabled:
  assumes "attached c = Some k" and "\<not> closeOnDragDown k"
  shows "deliver (Drag dy) c = c" and "deliver (Release dy) c = c"
  using assms by (simp_all add: onStartShouldSetPanResponder_def)

lemma render_same_props:
  "responder_ref (render (rendered c) c) = responder_ref c"
  "attached (render (rendered c) c) = Some (responder_ref c)"
  by (simp_all add: render_def)

section \<open>The claims\<close>

text \<open>
  C1. A gesture that ends with vertical delta \<open>dy\<close> commits to closing exactly when
  \<open>height / 4 - dy < 0\<close>, which is \<open>dy > height / 4\<close>. Then the release handler is
  \<open>setModalVisibility(false)\<close>: it starts the closing run, and when that run ends
  (after any frames) the sheet is closed and \<open>onClose\<close>, if given, has been
  called once more. Otherwise the handler starts a spring of the pan offset to
  (0, 0) and leaves the visibility, the height run and the calls alone; when the
  spring ends the offset is (0, 0) and the sheet is as open as before. The
  dispatcher hands a release to this handler when \<open>closeOnDragDown\<close> is set.
\<close>

theorem release_commits_past_quarter:
  "(height cfg / 4 - dy < 0 \<longleftrightarrow> height cfg / 4 < dy)
   \<and> (closeOnDragDown cfg \<longrightarrow>
        step cfg (PanRelease dy) s = onPanResponderRelease cfg dy s)
   \<and> (height cfg / 4 < dy \<longrightarrow>
        onPanResponderRelease cfg dy s = setModalVisibility cfg False s
      \<and> heightRun (onPanResponderRelease cfg dy s) = Some (close_run cfg)
      \<and> \<not> modalVisible
          (run cfg (map TimingFrame vs @ [TimingEnd]) (onPanResponderRelease cfg dy s))
      \<and> closeCalls
          (run cfg (map TimingFrame vs @ [TimingEnd]) (onPanResponderRelease cfg dy s)) =
          closeCalls s @
            (if onClose cfg
             then [\<lparr>seen_visible = False, seen_pan_x = 0, seen_pan_y = 0,
                    seen_height = minClosingHeight cfg\<rparr>]
             else []))
   \<and> (\<not> height cfg / 4 < dy \<longrightarrow>
        onPanResponderRelease cfg dy s = spring_start (0, 0) s
      \<and> panSpring (onPanResponderRelease cfg dy s) = Some (0, 0)
      \<and> modalVisible (onPanResponderRelease cfg dy s) = modalVisible s
      \<and> heightRun (onPanResponderRelease cfg dy s) = heightRun s
      \<and> closeCalls (onPanResponderRelease cfg dy s) = closeCalls s
      \<and> pan_x (spring_end (onPanResponderRelease cfg dy s)) = 0
      \<and> pan_y (spring_end (onPanResponderRelease cfg dy s)) = 0
      \<and> modalVisible (spring_end (onPanResponderRelease cfg dy s)) = modalVisible s
      \<and> closeCalls (spring_end (onPanResponderRelease cfg dy s)) = closeCalls s)"
proof -
  have gate: "closeOnDragDown cfg \<longrightarrow>
      step cfg (PanRelease dy) s = onPanResponderRelease cfg dy s"
    by (simp add: onStartShouldSetPanResponder_def)
  have commit: "onPanResponderRelease cfg dy s = setModalVisibility cfg False s"
    if "height cfg / 4 < dy"
    using that by (simp add: onPanResponderRelease_def)
  have snap: "onPanResponderRelease cfg dy s = spring_start (0, 0) s"
    if "\<not> height cfg / 4 < dy"
    using that by (simp add: onPanResponderRelease_def)
  have after_spring:
    "panSpring (spring_start (0, 0) s) = Some (0, 0)"
    "modalVisible (spring_start (0, 0) s) = modalVisible s"
    "heightRun (spring_start (0, 0) s) = heightRun s"
    "closeCalls (spring_start (0, 0) s) = closeCalls s"
    "pan_x (spring_end (spring_start (0, 0) s)) = 0"
    "pan_y (spring_end (spring_start (0, 0) s)) = 0"
    "modalVisible (spring_end (spring_start (0, 0) s)) = modalVisible s"
    "closeCalls (spring_end (spring_start (0, 0) s)) = closeCalls s"
    by (simp_all add: spring_start_def spring_end_def)
  note ended = close_run_completes [OF close_starts_close_run(1) [of cfg s], of vs]
  show ?thesis
    using gate commit snap after_spring ended close_starts_close_run [of cfg s]
    by (cases "height cfg / 4 < dy") simp_all
qed

theorem release_commits_past_quarter_witness:
  "closeOnDragDown drag_config
   \<and> step drag_config (PanRelease 100) opened = onPanResponderRelease drag_config 100 opened
   \<and> height drag_config / 4 < 100
   \<and> \<not> modalVisible
        (run drag_config (map TimingFrame [200, 90] @ [TimingEnd])
          (onPanResponderRelease drag_config 100 opened))
   \<and> length (closeCalls
        (run drag_config (map TimingFrame [200, 90] @ [TimingEnd])
          (onPanResponderRelease drag_config 100 opened))) = 1
   \<and> \<not> height drag_config / 4 < 50
   \<and> modalVisible (onPanResponderRelease drag_config 50 opened)
   \<and> pan_y (spring_end (onPanResponderRelease drag_config 50 opened)) = 0"
  using release_commits_past_quarter [of drag_config 100 opened "[200, 90]"]
    release_commits_past_quarter [of drag_config 50 opened "[]"]
  by (simp add: drag_config_simps opened_simps handler_defs between_def close_run_def)

text \<open>
  C2, as the code has it. \<open>setModalVisibility(false)\<close> puts the closing run in
  flight. When a closing run in flight ends, the call of \<open>onClose\<close> is made by
  the completion itself, and it observes the pan offset at (0, 0) and the height
  at \<open>minClosingHeight\<close>; \<open>setModalVisible(false)\<close> has been called before it.
  After the completion the modal is hidden, the pan offset is (0, 0), the height
  is \<open>minClosingHeight\<close> and no run is in flight. What the call observes of the
  visibility depends on React: outside a batch the modal is already hidden, inside
  a batch it is still as it was before the completion.
\<close>

theorem close_completion_postconditions:
  "heightRun (setModalVisibility cfg False s0) = Some (close_run cfg)
   \<and> (heightRun s = Some (close_run cfg) \<longrightarrow>
        closeCalls (timing_end cfg s) =
          closeCalls s @
            (if onClose cfg
             then [\<lparr>seen_visible = False, seen_pan_x = 0, seen_pan_y = 0,
                    seen_height = minClosingHeight cfg\<rparr>]
             else [])
      \<and> closeCalls (timing_end_batched cfg s) =
          closeCalls s @
            (if onClose cfg
             then [\<lparr>seen_visible = modalVisible s, seen_pan_x = 0, seen_pan_y = 0,
                    seen_height = minClosingHeight cfg\<rparr>]
             else [])
      \<and> \<not> modalVisible (timing_end cfg s)
      \<and> \<not> modalVisible (timing_end_batched cfg s)
      \<and> pan_x (timing_end cfg s) = 0
      \<and> pan_x (timing_end_batched cfg s) = 0
      \<and> pan_y (timing_end cfg s) = 0
      \<and> pan_y (timing_end_batched cfg s) = 0
      \<and> animatedHeight (timing_end cfg s) = minClosingHeight cfg
      \<and> animatedHeight (timing_end_batched cfg s) = minClosingHeight cfg
      \<and> heightRun (timing_end cfg s) = None
      \<and> heightRun (timing_end_batched cfg s) = None)"
  using timing_end_close_run [of s cfg] timing_end_batched_close_run [of s cfg]
    close_starts_close_run(1) [of cfg s0]
  by simp

theorem close_completion_postconditions_witness:
  "heightRun (setModalVisibility drag_config False opened) = Some (close_run drag_config)
   \<and> closeCalls (timing_end drag_config (setModalVisibility drag_config False opened)) =
       [\<lparr>seen_visible = False, seen_pan_x = 0, seen_pan_y = 0, seen_height = 0\<rparr>]
   \<and> closeCalls
        (timing_end_batched drag_config (setModalVisibility drag_config False opened)) =
       [\<lparr>seen_visible = True, seen_pan_x = 0, seen_pan_y = 0, seen_height = 0\<rparr>]
   \<and> \<not> modalVisible (timing_end drag_config (setModalVisibility drag_config False opened))
   \<and> \<not> modalVisible
        (timing_end_batched drag_config (setModalVisibility drag_config False opened))"
  using close_completion_postconditions
    [of drag_config opened "setModalVisibility drag_config False opened"]
  by (simp add: drag_config_simps opened_simps handler_defs close_run_def)

text \<open>
  C2 as stated fails: with \<open>duration\<close> 0 a press on the mask of the open sheet
  starts a closing run that completes inside the press handler, within React's
  batch; the call of \<open>onClose\<close> then observes the modal still shown.
\<close>

theorem onClose_before_hidden_counterexample:
  "duration instant_config = 0
   \<and> closeOnPressMask instant_config
   \<and> modalVisible instant_opened
   \<and> heightRun (onPress instant_config instant_opened) = Some (close_run instant_config)
   \<and> closeCalls (timing_end_batched instant_config (onPress instant_config instant_opened)) =
       [\<lparr>seen_visible = True, seen_pan_x = 0, seen_pan_y = 0, seen_height = 0\<rparr>]"
  by (simp add: instant_config_def instant_props_def instant_opened_def BottomSheet_props_def
      no_props_def orDefault_def initial_def handler_defs close_run_def
      timing_end_batched_def complete_batched_def)

text \<open>
  C3, as the code has it. \<open>close()\<close> on a closed sheet leaves the sheet closed and
  the height, the pan offset and the calls of \<open>onClose\<close> as they are at the time
  of the call, but it starts a closing run like any other \<open>close()\<close>; when that
  run ends the sheet is still closed, the height is \<open>minClosingHeight\<close>, and
  \<open>onClose\<close>, if given, has been called once more.
\<close>

theorem close_when_closed:
  "\<not> modalVisible s \<Longrightarrow>
     \<not> modalVisible (close cfg s)
   \<and> animatedHeight (close cfg s) = animatedHeight s
   \<and> pan_x (close cfg s) = pan_x s
   \<and> pan_y (close cfg s) = pan_y s
   \<and> closeCalls (close cfg s) = closeCalls s
   \<and> heightRun (close cfg s) = Some (close_run cfg)
   \<and> \<not> modalVisible (timing_end cfg (close cfg s))
   \<and> animatedHeight (timing_end cfg (close cfg s)) = minClosingHeight cfg
   \<and> closeCalls (timing_end cfg (close cfg s)) =
       closeCalls s @
         (if onClose cfg
          then [\<lparr>seen_visible = False, seen_pan_x = 0, seen_pan_y = 0,
                 seen_height = minClosingHeight cfg\<rparr>]
          else [])"
  by (auto simp: handler_defs close_run_def)

theorem close_when_closed_witness:
  "\<not> modalVisible initial
   \<and> \<not> modalVisible (close drag_config initial)
   \<and> heightRun (close drag_config initial) = Some (close_run drag_config)
   \<and> length (closeCalls (timing_end drag_config (close drag_config initial))) = 1"
  using close_when_closed [of initial drag_config]
  by (simp add: drag_config_simps initial_def handler_defs close_run_def)

text \<open>
  C3 as stated fails: on a freshly created sheet, closed, at rest and with no
  call of \<open>onClose\<close> so far, \<open>close()\<close> puts a closing run in flight, and the
  end of that run calls \<open>onClose\<close>.
\<close>

theorem close_when_closed_counterexample:
  "\<not> modalVisible initial
   \<and> closeCalls initial = []
   \<and> heightRun initial = None
   \<and> heightRun (run drag_config [CallClose] initial) =
       Some \<lparr>toValue = 0, run_duration = 300, callback = CloseDone\<rparr>
   \<and> closeCalls (run drag_config [CallClose, TimingEnd] initial) =
       [\<lparr>seen_visible = False, seen_pan_x = 0, seen_pan_y = 0, seen_height = 0\<rparr>]"
  by (simp add: drag_config_simps initial_def handler_defs)

text \<open>
  C4, as the code has it. An event either leaves the calls of \<open>onClose\<close> as they
  are, or it is the end of a closing run, adds exactly one call and leaves the
  sheet closed with no run in flight. A release that does not pass the quarter
  of the height, followed by the end of its spring, adds no call and starts no
  height run. Over a trace after every event of which the modal is shown no call
  is added, and one more event adds at most one: between an \<open>open()\<close> and the
  moment the sheet is closed \<open>onClose\<close> is called at most once.
\<close>

theorem onClose_only_on_close_completion:
  "(closeCalls (step cfg e s) = closeCalls s
     \<or> (e = TimingEnd
        \<and> (\<exists>r. heightRun s = Some r \<and> callback r = CloseDone)
        \<and> length (closeCalls (step cfg e s)) = length (closeCalls s) + 1
        \<and> \<not> modalVisible (step cfg e s)
        \<and> heightRun (step cfg e s) = None))
   \<and> (\<not> height cfg / 4 < dy \<longrightarrow>
        closeCalls (run cfg [PanRelease dy, SpringEnd] s) = closeCalls s
      \<and> heightRun (run cfg [PanRelease dy, SpringEnd] s) = heightRun s)
   \<and> (stays_open cfg es s \<longrightarrow>
        closeCalls (run cfg es s) = closeCalls s
      \<and> length (closeCalls (run cfg (es @ [e']) s)) \<le> length (closeCalls s) + 1)"
proof -
  have snap: "\<not> height cfg / 4 < dy \<longrightarrow>
        closeCalls (run cfg [PanRelease dy, SpringEnd] s) = closeCalls s
      \<and> heightRun (run cfg [PanRelease dy, SpringEnd] s) = heightRun s"
    by (auto simp: handler_defs split: option.splits)
  have cyc: "stays_open cfg es s \<longrightarrow>
        closeCalls (run cfg es s) = closeCalls s
      \<and> length (closeCalls (run cfg (es @ [e']) s)) \<le> length (closeCalls s) + 1"
  proof
    assume so: "stays_open cfg es s"
    then have eq: "closeCalls (run cfg es s) = closeCalls s"
      by (rule stays_open_closeCalls)
    from step_closeCalls [of cfg e' "run cfg es s"]
    have "length (closeCalls (step cfg e' (run cfg es s)))
            \<le> length (closeCalls (run cfg es s)) + 1"
      by auto
    with eq show "closeCalls (run cfg es s) = closeCalls s
      \<and> length (closeCalls (run cfg (es @ [e']) s)) \<le> length (closeCalls s) + 1"
      by (simp add: run_append)
  qed
  from step_closeCalls [of cfg e s] snap cyc show ?thesis by blast
qed

theorem onClose_only_on_close_completion_witness:
  "\<not> height drag_config / 4 < 50
   \<and> closeCalls (run drag_config [PanRelease 50, SpringEnd] opened) = closeCalls opened
   \<and> stays_open drag_config [PanMove 30, PanRelease 30, SpringEnd, CallClose] opened
   \<and> closeCalls (run drag_config [PanMove 30, PanRelease 30, SpringEnd, CallClose] opened)
       = []
   \<and> length (closeCalls
        (run drag_config ([PanMove 30, PanRelease 30, SpringEnd, CallClose] @ [TimingEnd])
          opened)) = 1"
  using onClose_only_on_close_completion
    [of drag_config TimingEnd opened 50
       "[PanMove 30, PanRelease 30, SpringEnd, CallClose]" TimingEnd]
  by (simp add: drag_config_simps opened_simps handler_defs)

text \<open>
  C4 as stated fails: after one \<open>open()\<close> and one completed \<open>close()\<close> the sheet
  is closed and at rest with one call of \<open>onClose\<close>; a second \<open>close()\<close> and the
  end of its run make it two.
\<close>

theorem onClose_twice_counterexample:
  "\<not> modalVisible (run drag_config [CallOpen, TimingEnd, CallClose, TimingEnd] initial)
   \<and> heightRun (run drag_config [CallOpen, TimingEnd, CallClose, TimingEnd] initial) = None
   \<and> length (closeCalls
        (run drag_config [CallOpen, TimingEnd, CallClose, TimingEnd] initial)) = 1
   \<and> length (closeCalls
        (run drag_config [CallOpen, TimingEnd, CallClose, TimingEnd, CallClose, TimingEnd]
          initial)) = 2"
  by (simp add: drag_config_simps initial_def handler_defs)

text \<open>
  C5. A drag sample with \<open>dy > 0\<close> sets the vertical pan offset to exactly \<open>dy\<close>
  and leaves the horizontal one as it is; a sample with \<open>dy \<le> 0\<close> changes
  nothing. In every state reachable from the initial one the horizontal offset
  is 0, before and after a sample.
\<close>

theorem move_follows_drag:
  "(0 < dy \<longrightarrow>
      pan_y (onPanResponderMove dy s) = dy
    \<and> pan_x (onPanResponderMove dy s) = pan_x s)
   \<and> (dy \<le> 0 \<longrightarrow> onPanResponderMove dy s = s)
   \<and> pan_x (run cfg es initial) = 0
   \<and> pan_x (onPanResponderMove dy (run cfg es initial)) = 0"
proof -
  have "pan_x_pinned initial" by (simp add: pan_x_pinned_def initial_def)
  then have "pan_x_pinned (run cfg es initial)" by (rule run_pan_x_pinned)
  then have "pan_x (run cfg es initial) = 0" by (simp add: pan_x_pinned_def)
  then show ?thesis by (auto simp: onPanResponderMove_def pan_y_setValue_def)
qed

theorem move_follows_drag_witness:
  "(0::real) < 50
   \<and> pan_y (onPanResponderMove 50 opened) = 50
   \<and> pan_x (onPanResponderMove 50 opened) = 0
   \<and> (-3::real) \<le> 0
   \<and> onPanResponderMove (-3) opened = opened"
  using move_follows_drag [of 50 opened drag_config "[]"]
    move_follows_drag [of "-3" opened drag_config "[]"]
  by (simp add: opened_simps)

text \<open>
  C6, as the code has it, for one instance at a time: the instance is mounted on
  the shared height as an earlier instance left it, \<open>animatedHeight s0\<close>, with
  no run in flight, and no other instance moves the shared height while this one
  is followed. For a configuration with \<open>minClosingHeight \<le> height\<close>, in every
  state the instance reaches the height is at least the smaller of its value at
  mount and \<open>minClosingHeight\<close>, and at most the larger of its value at mount
  and \<open>height\<close>; once it is at least \<open>minClosingHeight\<close> it stays so, and once
  it is at most \<open>height\<close> it stays so. For the first instance after the module
  is loaded the value at mount is 0: with \<open>0 \<le> height\<close> its height never exceeds
  \<open>height\<close> and never drops below the smaller of 0 and \<open>minClosingHeight\<close>.
\<close>

theorem height_bounds:
  assumes "minClosingHeight cfg \<le> height cfg"
  shows "min (animatedHeight s0) (minClosingHeight cfg)
           \<le> animatedHeight (run cfg es (remount s0))
   \<and> animatedHeight (run cfg es (remount s0)) \<le> max (animatedHeight s0) (height cfg)
   \<and> (minClosingHeight cfg \<le> animatedHeight (run cfg es (remount s0)) \<longrightarrow>
        minClosingHeight cfg \<le> animatedHeight (run cfg es' (run cfg es (remount s0))))
   \<and> (animatedHeight (run cfg es (remount s0)) \<le> height cfg \<longrightarrow>
        animatedHeight (run cfg es' (run cfg es (remount s0))) \<le> height cfg)
   \<and> (0 \<le> height cfg \<longrightarrow>
        min 0 (minClosingHeight cfg) \<le> animatedHeight (run cfg es initial)
      \<and> animatedHeight (run cfg es initial) \<le> height cfg)"
proof -
  let ?lo = "min (animatedHeight s0) (minClosingHeight cfg)"
  let ?hi = "max (animatedHeight s0) (height cfg)"
  let ?s = "run cfg es (remount s0)"
  have i: "height_in cfg ?lo ?hi (remount s0)"
    by (simp add: height_in_def remount_def initial_def)
  have w: "height_in cfg ?lo ?hi ?s"
    by (rule run_height_in [OF min.cobounded2 assms max.cobounded2 i])
  have lower: "minClosingHeight cfg \<le> animatedHeight (run cfg es' ?s)"
    if "minClosingHeight cfg \<le> animatedHeight ?s"
  proof -
    from w that have h: "height_in cfg (minClosingHeight cfg) ?hi ?s"
      by (simp add: height_in_def)
    have "height_in cfg (minClosingHeight cfg) ?hi (run cfg es' ?s)"
      by (rule run_height_in [OF order_refl assms max.cobounded2 h])
    then show ?thesis by (simp add: height_in_def)
  qed
  have upper: "animatedHeight (run cfg es' ?s) \<le> height cfg"
    if "animatedHeight ?s \<le> height cfg"
  proof -
    from w that have h: "height_in cfg ?lo (height cfg) ?s"
      by (simp add: height_in_def)
    have "height_in cfg ?lo (height cfg) (run cfg es' ?s)"
      by (rule run_height_in [OF min.cobounded2 assms order_refl h])
    then show ?thesis by (simp add: height_in_def)
  qed
  have first: "min 0 (minClosingHeight cfg) \<le> animatedHeight (run cfg es initial)
      \<and> animatedHeight (run cfg es initial) \<le> height cfg"
    if "0 \<le> height cfg"
  proof -
    from that have h: "height_in cfg (min 0 (minClosingHeight cfg)) (height cfg) initial"
      by (simp add: height_in_def initial_def)
    have "height_in cfg (min 0 (minClosingHeight cfg)) (height cfg) (run cfg es initial)"
      by (rule run_height_in [OF min.cobounded2 assms order_refl h])
    then show ?thesis by (simp add: height_in_def)
  qed
  from w lower upper first show ?thesis by (simp add: height_in_def)
qed

theorem height_bounds_witness:
  "minClosingHeight (BottomSheet_props short_props) \<le> height (BottomSheet_props short_props)
   \<and> animatedHeight (remount opened) = 260
   \<and> animatedHeight
        (run (BottomSheet_props short_props) [CallOpen, TimingFrame 200] (remount opened))
        = 200
   \<and> animatedHeight
        (run (BottomSheet_props short_props) [CallOpen, TimingFrame 200, TimingEnd]
          (remount opened))
        = 100
   \<and> animatedHeight
        (run (BottomSheet_props short_props) [CallClose, TimingFrame 50]
          (run (BottomSheet_props short_props) [CallOpen, TimingFrame 200, TimingEnd]
            (remount opened)))
        \<le> height (BottomSheet_props short_props)
   \<and> minClosingHeight (BottomSheet_props short_props)
        \<le> animatedHeight
          (run (BottomSheet_props short_props) [CallClose, TimingFrame 50]
            (run (BottomSheet_props short_props) [CallOpen, TimingFrame 200, TimingEnd]
              (remount opened)))
   \<and> 0 \<le> height (BottomSheet_props short_props)
   \<and> animatedHeight
        (run (BottomSheet_props short_props) [CallOpen, TimingFrame 200, TimingEnd] initial)
        \<le> height (BottomSheet_props short_props)"
  using height_bounds
    [of "BottomSheet_props short_props" opened "[CallOpen, TimingFrame 200]" "[]"]
    height_bounds
    [of "BottomSheet_props short_props" opened "[CallOpen, TimingFrame 200, TimingEnd]"
       "[CallClose, TimingFrame 50]"]
  by (simp add: short_props_def no_props_def BottomSheet_props_def orDefault_def
      initial_def remount_def opened_simps handler_defs between_def)

text \<open>
  C6 as stated fails twice. With \<open>minClosingHeight\<close> 10 and the default height
  260, the initial state of the first instance, reached by the empty trace, has
  height 0, below \<open>minClosingHeight\<close>. And an instance with \<open>height\<close> 100
  mounted after an instance that opened to 260 starts with height 260, above its
  \<open>height\<close>.
\<close>

theorem height_below_minimum_counterexample:
  "minClosingHeight (BottomSheet_props tall_props) = 10
   \<and> height (BottomSheet_props tall_props) = 260
   \<and> animatedHeight (run (BottomSheet_props tall_props) [] initial) = 0
   \<and> \<not> minClosingHeight (BottomSheet_props tall_props)
         \<le> animatedHeight (run (BottomSheet_props tall_props) [] initial)
   \<and> height (BottomSheet_props short_props) = 100
   \<and> animatedHeight (run (BottomSheet_props short_props) [] (remount opened)) = 260
   \<and> \<not> animatedHeight (run (BottomSheet_props short_props) [] (remount opened))
         \<le> height (BottomSheet_props short_props)"
  by (simp add: tall_props_def short_props_def no_props_def BottomSheet_props_def
      orDefault_def initial_def remount_def opened_simps)

text \<open>
  C7. Gesture handling is to be active only when \<open>closeOnDragDown\<close> is enabled
  and the sheet is open. The code at the input where it departs from this: the
  sheet is mounted with \<open>closeOnDragDown\<close> set and opened, and the owner then
  renders it with \<open>closeOnDragDown\<close> false and the same \<open>height\<close>. The effect of
  \<open>usePanResponder\<close> does not run again, the view keeps the handlers of the
  first render, and with \<open>closeOnDragDown\<close> false a drag sample of 5 still moves
  the vertical pan offset from 0 to 5 and a release of 100 still starts the
  closing run.
\<close>

theorem drag_handled_after_flag_cleared:
  "closeOnDragDown (rendered (handle_open (mount drag_config)))
   \<and> \<not> closeOnDragDown (rendered stale)
   \<and> rendered stale = drag_config\<lparr>closeOnDragDown := False\<rparr>
   \<and> attached stale = Some drag_config
   \<and> modalVisible (view stale)
   \<and> pan_y (view stale) = 0
   \<and> pan_y (view (deliver (Drag 5) stale)) = 5
   \<and> heightRun (view stale) = Some (open_run drag_config)
   \<and> heightRun (view (deliver (Release 100) stale)) = Some (close_run drag_config)"
  by (simp add: stale_def mount_def handle_open_def render_def drag_config_simps
      undrag_props_def drag_props_def BottomSheet_props_def no_props_def orDefault_def
      initial_def handler_defs close_run_def open_run_def)

text \<open>
  C8. A press on the mask is \<open>close()\<close> when \<open>closeOnPressMask\<close> is set and
  changes nothing when it is not; a back request is \<open>close()\<close> when
  \<open>closeOnPressBack\<close> is set and changes nothing when it is not. \<open>close()\<close> puts
  the closing run in flight.
\<close>

theorem press_closes_iff_enabled:
  "(closeOnPressMask cfg \<longrightarrow> onPress cfg s = close cfg s)
   \<and> (\<not> closeOnPressMask cfg \<longrightarrow> onPress cfg s = s)
   \<and> (closeOnPressBack cfg \<longrightarrow> onRequestClose cfg s = close cfg s)
   \<and> (\<not> closeOnPressBack cfg \<longrightarrow> onRequestClose cfg s = s)
   \<and> step cfg MaskPress s = onPress cfg s
   \<and> step cfg BackRequest s = onRequestClose cfg s
   \<and> heightRun (close cfg s) = Some (close_run cfg)"
  by (simp add: onPress_def onRequestClose_def close_def setModalVisibility_def
      timing_start_def close_run_def)

theorem press_closes_iff_enabled_witness:
  "closeOnPressMask drag_config
   \<and> onPress drag_config opened = close drag_config opened
   \<and> closeOnPressBack drag_config
   \<and> onRequestClose drag_config opened = close drag_config opened
   \<and> \<not> closeOnPressMask (BottomSheet_props locked_props)
   \<and> onPress (BottomSheet_props locked_props) opened = opened
   \<and> \<not> closeOnPressBack (BottomSheet_props locked_props)
   \<and> onRequestClose (BottomSheet_props locked_props) opened = opened
   \<and> modalVisible (onPress (BottomSheet_props locked_props) opened)"
  using press_closes_iff_enabled [of drag_config opened]
    press_closes_iff_enabled [of "BottomSheet_props locked_props" opened]
  by (simp add: drag_config_simps opened_simps locked_props_def no_props_def
      BottomSheet_props_def orDefault_def)

text \<open>
  C9. \<open>setModalVisibility(true)\<close> shows the modal at once, with the height where it
  was and the opening run in flight, and the modal stays shown through the frames
  of the run; the opening callback pins the height to \<open>height\<close> whatever value
  the run left; after the frames and the end of the opening run the height is
  exactly \<open>height\<close> and the modal is shown; after the frames and the end of a
  closing run the height is exactly \<open>minClosingHeight\<close> and the modal is hidden.
\<close>

theorem open_and_close_reach_targets:
  "modalVisible (setModalVisibility cfg True s)
   \<and> animatedHeight (setModalVisibility cfg True s) = animatedHeight s
   \<and> heightRun (setModalVisibility cfg True s) = Some (open_run cfg)
   \<and> modalVisible (run cfg (map TimingFrame vs) (setModalVisibility cfg True s))
   \<and> animatedHeight (complete cfg OpenDone s') = height cfg
   \<and> animatedHeight
       (run cfg (map TimingFrame vs @ [TimingEnd]) (setModalVisibility cfg True s))
       = height cfg
   \<and> modalVisible
       (run cfg (map TimingFrame vs @ [TimingEnd]) (setModalVisibility cfg True s))
   \<and> animatedHeight
       (run cfg (map TimingFrame vs @ [TimingEnd]) (setModalVisibility cfg False s))
       = minClosingHeight cfg
   \<and> \<not> modalVisible
       (run cfg (map TimingFrame vs @ [TimingEnd]) (setModalVisibility cfg False s))"
proof -
  let ?o = "setModalVisibility cfg True s"
  have o: "heightRun ?o = Some (open_run cfg)" "modalVisible ?o"
    "animatedHeight ?o = animatedHeight s"
    by (simp_all add: setModalVisibility_def timing_start_def open_run_def)
  have fo: "heightRun (run cfg (map TimingFrame vs) ?o) = Some (open_run cfg)"
    "modalVisible (run cfg (map TimingFrame vs) ?o)"
    using o by (simp_all add: frames_keep_run frames_keep_rest)
  have eo: "animatedHeight (timing_end cfg (run cfg (map TimingFrame vs) ?o)) = height cfg"
    "modalVisible (timing_end cfg (run cfg (map TimingFrame vs) ?o))"
    using fo
    by (simp_all add: timing_end_def complete_def animatedHeight_setValue_def open_run_def)
  have pin: "animatedHeight (complete cfg OpenDone s') = height cfg"
    by (simp add: complete_def animatedHeight_setValue_def)
  note ec = close_run_completes(1,2) [OF close_starts_close_run(1) [of cfg s], of vs]
  from o fo eo ec pin show ?thesis by (simp add: run_append)
qed

text \<open>
  C10. With every configuration field omitted the component works with
  height 260, minClosingHeight 0, duration 300, closeOnDragDown false,
  closeOnPressMask true, closeOnPressBack true and animationType none; each default
  applies to its own field whatever the other fields are; and the behaviour is
  computed from these values: the release handler compares the drag with 260 / 4,
  the two runs of the visibility controller aim at 260 and 0 over 300, a drag
  sample is not handled, and a mask press and a back request close.
\<close>

theorem defaults_applied:
  "BottomSheet_props no_props =
     \<lparr> animationType = AnimNone, height = 260, minClosingHeight = 0, duration = 300,
       closeOnDragDown = False, closeOnPressMask = True, closeOnPressBack = True,
       onClose = False \<rparr>
   \<and> animationType (BottomSheet_props (p\<lparr>p_animationType := None\<rparr>)) = AnimNone
   \<and> height (BottomSheet_props (p\<lparr>p_height := None\<rparr>)) = 260
   \<and> minClosingHeight (BottomSheet_props (p\<lparr>p_minClosingHeight := None\<rparr>)) = 0
   \<and> duration (BottomSheet_props (p\<lparr>p_duration := None\<rparr>)) = 300
   \<and> closeOnDragDown (BottomSheet_props (p\<lparr>p_closeOnDragDown := None\<rparr>)) = False
   \<and> closeOnPressMask (BottomSheet_props (p\<lparr>p_closeOnPressMask := None\<rparr>)) = True
   \<and> closeOnPressBack (BottomSheet_props (p\<lparr>p_closeOnPressBack := None\<rparr>)) = True
   \<and> onPanResponderRelease (BottomSheet_props no_props) dy s =
       (if 65 < dy then close (BottomSheet_props no_props) s else spring_start (0, 0) s)
   \<and> heightRun (open_sheet (BottomSheet_props no_props) s) =
       Some \<lparr>toValue = 260, run_duration = 300, callback = OpenDone\<rparr>
   \<and> heightRun (close (BottomSheet_props no_props) s) =
       Some \<lparr>toValue = 0, run_duration = 300, callback = CloseDone\<rparr>
   \<and> step (BottomSheet_props no_props) (PanMove dy) s = s
   \<and> step (BottomSheet_props no_props) MaskPress s = close (BottomSheet_props no_props) s
   \<and> step (BottomSheet_props no_props) BackRequest s = close (BottomSheet_props no_props) s"
  by (auto simp: BottomSheet_props_def no_props_def orDefault_def
      onPanResponderRelease_def close_def open_sheet_def setModalVisibility_def
      timing_start_def onStartShouldSetPanResponder_def onPress_def onRequestClose_def)

end
